theory Spec2Isabelle
  imports Main "HOL-Library.Word" "HOL-Library.Sublist"
begin

section \<open>JavaScript values used by the webhook\<close>

text \<open>
  The component in \<^verbatim>\<open>pipedream_webhook.js\<close> is one asynchronous function \<^verbatim>\<open>run\<close>.
  It reads the body of the triggering HTTP request, formats a message, posts it to
  the chat provider and answers the caller.

  A JavaScript string is a sequence of UTF-16 code units: \<^verbatim>\<open>.length\<close> counts code
  units and \<^verbatim>\<open>.substring\<close> cuts between them. The literals of the source contain
  characters outside ASCII, so strings are lists of 16-bit words here, and the
  ASCII parts of a literal are written with \<open>ascii\<close>.
\<close>

type_synonym code_unit = "16 word"
type_synonym jsstring = "code_unit list"

definition ascii :: "string \<Rightarrow> jsstring" where
  "ascii s = map of_char s"

text \<open>
  The fields of the request body and of the provider's answer are JSON scalars.
  Numbers are the integer-valued ones (timestamps in milliseconds, counters).
\<close>

datatype jsval = JUndefined | JNull | JBool bool | JNum int | JStr jsstring

text \<open>Truthiness, as tested by \<^verbatim>\<open>!x\<close>, \<^verbatim>\<open>x ? a : b\<close> and \<^verbatim>\<open>x || y\<close>.\<close>

fun truthy :: "jsval \<Rightarrow> bool" where
  "truthy JUndefined = False"
| "truthy JNull = False"
| "truthy (JBool b) = b"
| "truthy (JNum n) = (n \<noteq> 0)"
| "truthy (JStr s) = (s \<noteq> [])"

text \<open>
  Decimal rendering of an integer-valued number, as a template literal prints it.
  It is what JavaScript prints for the integers a number holds exactly and prints
  in full, those of magnitude below \<open>2 ^ 53\<close>: clock readings and their differences
  are of that kind. Beyond that range JavaScript rounds to 17 significant digits
  and, from \<open>10 ^ 21\<close>, prints an exponent; this function does not follow it there.
\<close>

fun digits :: "nat \<Rightarrow> jsstring" where
  "digits n = (if n < 10 then [of_nat (48 + n)]
               else digits (n div 10) @ [of_nat (48 + n mod 10)])"

declare digits.simps [simp del]

definition Number_toString :: "int \<Rightarrow> jsstring" where
  "Number_toString n = (if n < 0 then ascii ''-'' @ digits (nat (- n)) else digits (nat n))"

text \<open>The conversion a template literal applies to an interpolated value.\<close>

fun ToString :: "jsval \<Rightarrow> jsstring" where
  "ToString JUndefined = ascii ''undefined''"
| "ToString JNull = ascii ''null''"
| "ToString (JBool b) = (if b then ascii ''true'' else ascii ''false'')"
| "ToString (JNum n) = Number_toString n"
| "ToString (JStr s) = s"

text \<open>
  \<^verbatim>\<open>String.prototype.substring(start, end)\<close>: both indices are clamped to
  \<open>[0, length]\<close> and swapped when out of order.
\<close>

definition substring :: "jsstring \<Rightarrow> int \<Rightarrow> int \<Rightarrow> jsstring" where
  "substring s start finish =
     (let len = int (length s);
          finalStart = min (max start 0) len;
          finalEnd = min (max finish 0) len;
          lo = min finalStart finalEnd;
          hi = max finalStart finalEnd
      in drop (nat lo) (take (nat hi) s))"

text \<open>
  \<^verbatim>\<open>JSON.stringify\<close> on a scalar. A string is quoted: the two-character escapes for
  backspace, tab, newline, form feed, carriage return, the double quote and the
  backslash, \<^verbatim>\<open>\uxxxx\<close> (lower-case hexadecimal) for the other control characters
  and for a surrogate that is not part of a pair, every other code unit as it is.
  On \<^verbatim>\<open>undefined\<close> the result is \<^verbatim>\<open>undefined\<close> (\<open>None\<close>).
\<close>

definition hexdigit :: "nat \<Rightarrow> code_unit" where
  "hexdigit d = (if d < 10 then of_nat (48 + d) else of_nat (87 + d))"

definition unicode_escape :: "code_unit \<Rightarrow> jsstring" where
  "unicode_escape c =
     [92, 117, hexdigit (unat c div 4096), hexdigit (unat c div 256 mod 16),
      hexdigit (unat c div 16 mod 16), hexdigit (unat c mod 16)]"

definition is_high_surrogate :: "code_unit \<Rightarrow> bool" where
  "is_high_surrogate c \<longleftrightarrow> 0xD800 \<le> c \<and> c \<le> 0xDBFF"

definition is_low_surrogate :: "code_unit \<Rightarrow> bool" where
  "is_low_surrogate c \<longleftrightarrow> 0xDC00 \<le> c \<and> c \<le> 0xDFFF"

fun QuoteJSONString_units :: "jsstring \<Rightarrow> jsstring" where
  "QuoteJSONString_units [] = []"
| "QuoteJSONString_units (c # cs) =
     (if c = 8 then [92, 98] @ QuoteJSONString_units cs
      else if c = 9 then [92, 116] @ QuoteJSONString_units cs
      else if c = 10 then [92, 110] @ QuoteJSONString_units cs
      else if c = 12 then [92, 102] @ QuoteJSONString_units cs
      else if c = 13 then [92, 114] @ QuoteJSONString_units cs
      else if c = 34 then [92, 34] @ QuoteJSONString_units cs
      else if c = 92 then [92, 92] @ QuoteJSONString_units cs
      else if c < 32 then unicode_escape c @ QuoteJSONString_units cs
      else if is_high_surrogate c then
        (case cs of
           [] \<Rightarrow> unicode_escape c
         | d # ds \<Rightarrow>
             if is_low_surrogate d then c # d # QuoteJSONString_units ds
             else unicode_escape c @ QuoteJSONString_units cs)
      else if is_low_surrogate c then unicode_escape c @ QuoteJSONString_units cs
      else c # QuoteJSONString_units cs)"

fun JSON_stringify :: "jsval \<Rightarrow> jsstring option" where
  "JSON_stringify JUndefined = None"
| "JSON_stringify JNull = Some (ascii ''null'')"
| "JSON_stringify (JBool b) = Some (if b then ascii ''true'' else ascii ''false'')"
| "JSON_stringify (JNum n) = Some (Number_toString n)"
| "JSON_stringify (JStr s) = Some ([34] @ QuoteJSONString_units s @ [34])"

section \<open>Configuration, requests and the environment\<close>

text \<open>
  The props of the component: \<^verbatim>\<open>this.slack_channel\<close>, \<^verbatim>\<open>this.max_message_length\<close> (an
  integer prop) and the token \<^verbatim>\<open>this.slack.$auth.oauth_access_token\<close>.
\<close>

record config =
  slack_channel :: jsstring
  max_message_length :: int
  oauth_access_token :: jsstring

text \<open>
  The argument of \<^verbatim>\<open>$.send.http\<close>. The report post sets \<^verbatim>\<open>unfurl_links\<close> and
  \<^verbatim>\<open>unfurl_media\<close>; the error notice leaves them out.
\<close>

record message =
  channel :: jsstring
  "text" :: jsstring
  username :: jsstring
  icon_emoji :: jsstring
  unfurl_links :: "bool option"
  unfurl_media :: "bool option"

record http_request =
  http_method :: jsstring
  url :: jsstring
  headers :: "(jsstring \<times> jsstring) list"
  data :: message

text \<open>
  A thrown value, as the \<^verbatim>\<open>catch\<close> clause of line 107 receives it. JavaScript can throw
  any value, and a promise can reject with any value. The handler only ever reads
  \<^verbatim>\<open>error.message\<close>: on \<^verbatim>\<open>undefined\<close> and \<^verbatim>\<open>null\<close> that read throws a \<^verbatim>\<open>TypeError\<close>;
  on any other value it yields the value of the property \<^verbatim>\<open>message\<close> (\<^verbatim>\<open>undefined\<close> when
  there is none), which is what \<open>Thrown\<close> carries. An \<^verbatim>\<open>Error\<close> object carries its
  message string.
\<close>

datatype nullish = Undefined | Null

datatype exn = ThrownNullish nullish | Thrown jsval

abbreviation Error :: "jsstring \<Rightarrow> exn" where
  "Error msg \<equiv> Thrown (JStr msg)"

text \<open>
  What an awaited \<^verbatim>\<open>$.send.http\<close> gives back: the promise rejects with some value, or
  it resolves. A resolved value is \<^verbatim>\<open>undefined\<close> or \<^verbatim>\<open>null\<close>
  (\<open>Nullish\<close>), where reading \<^verbatim>\<open>.ok\<close> throws, or a value whose properties \<^verbatim>\<open>ok\<close>,
  \<^verbatim>\<open>error\<close> and \<^verbatim>\<open>ts\<close> can be read (a missing one reads as \<^verbatim>\<open>undefined\<close>).
\<close>

datatype response = Nullish | Response (ok: jsval) (error: jsval) (ts: jsval)

datatype outcome = Rejects exn | Resolves response

text \<open>
  \<^verbatim>\<open>steps.trigger.event.body\<close>: \<^verbatim>\<open>undefined\<close>, \<^verbatim>\<open>null\<close>, an object (its properties a
  map, an absent key being \<open>None\<close>), or a string, number or boolean, none of which
  has a property \<^verbatim>\<open>report\<close>, \<^verbatim>\<open>timestamp\<close> or \<^verbatim>\<open>source\<close>.
\<close>

datatype body =
  BodyUndefined | BodyNull | BodyObject "string \<rightharpoonup> jsval" | BodyPrimitive

text \<open>The places where the engine itself throws a \<^verbatim>\<open>TypeError\<close>.\<close>

datatype type_error =
  DestructureUndefined | DestructureNull | ReadOkOfNullish | ReadMessageOf nullish

text \<open>
  Everything the handler reads from outside. \<open>clock k\<close> is the time in milliseconds
  at the \<open>k\<close>-th reading (\<^verbatim>\<open>Date.now()\<close> or \<^verbatim>\<open>new Date()\<close>); the three formatters
  depend on locale and time zone; \<open>type_error_message\<close> is the engine's wording.
  \<open>send_report\<close> answers the call that posts the report and \<open>send_error_notice\<close>
  the call in the \<^verbatim>\<open>catch\<close> clause: any outcome is possible for either.
\<close>

record env =
  clock :: "nat \<Rightarrow> int"
  toLocaleString :: "jsval \<Rightarrow> jsstring"
  toLocaleTimeString :: "int \<Rightarrow> jsstring"
  toISOString :: "int \<Rightarrow> jsstring"
  type_error_message :: "type_error \<Rightarrow> jsstring"
  send_report :: "http_request \<Rightarrow> outcome"
  send_error_notice :: "http_request \<Rightarrow> outcome"

text \<open>
  The effects of one invocation: the outbound calls made so far, in order, and the
  number of clock readings taken. Console output is not recorded.
\<close>

record state =
  calls :: "http_request list"
  ticks :: nat

definition now :: "env \<Rightarrow> state \<Rightarrow> int \<times> state" where
  "now e s = (clock e (ticks s), s\<lparr>ticks := Suc (ticks s)\<rparr>)"

definition send_http :: "(http_request \<Rightarrow> outcome) \<Rightarrow> http_request \<Rightarrow> state \<Rightarrow> outcome \<times> state" where
  "send_http provider req s = (provider req, s\<lparr>calls := calls s @ [req]\<rparr>)"

text \<open>
  What the handler hands back: \<^verbatim>\<open>$.respond({status, body})\<close> with one of the two
  bodies \<^verbatim>\<open>{error}\<close> and \<^verbatim>\<open>{success, error, timestamp}\<close>, or the plain object of
  the success path. In the second body \<^verbatim>\<open>error\<close> is whatever \<^verbatim>\<open>error.message\<close> was. Its properties \<^verbatim>\<open>timestamp\<close> and \<^verbatim>\<open>slack_channel\<close> are the fields
  \<open>result_timestamp\<close> and \<open>result_slack_channel\<close>, the plain names being taken by
  the request field and the prop.
\<close>

datatype respond_body =
  ErrorBody jsstring
| FailureBody bool jsval jsstring

record result =
  success :: bool
  result_timestamp :: jsstring
  result_slack_channel :: jsstring
  message_length :: nat
  processing_time_ms :: int
  slack_message_ts :: jsval

datatype handler_result = Respond int respond_body | Return result

section \<open>The handler\<close>

definition property :: "(string \<rightharpoonup> jsval) \<Rightarrow> string \<Rightarrow> jsval" where
  "property obj k = (case obj k of None \<Rightarrow> JUndefined | Some v \<Rightarrow> v)"

text \<open>\<^verbatim>\<open>const { report, timestamp, source } = requestBody\<close>\<close>

fun destructure :: "env \<Rightarrow> body \<Rightarrow> exn + jsval \<times> jsval \<times> jsval" where
  "destructure e BodyUndefined = Inl (Error (type_error_message e DestructureUndefined))"
| "destructure e BodyNull = Inl (Error (type_error_message e DestructureNull))"
| "destructure e (BodyObject obj) =
     Inr (property obj ''report'', property obj ''timestamp'', property obj ''source'')"
| "destructure e BodyPrimitive = Inr (JUndefined, JUndefined, JUndefined)"

definition truncation_notice :: jsstring where
  "truncation_notice = ascii ''\<newline>\<newline>...(truncated - see full report in tool)''"

text \<open>
  Lines 58 to 61. It runs only on a truthy \<^verbatim>\<open>report\<close>. On a number or \<^verbatim>\<open>true\<close>,
  \<^verbatim>\<open>report.length\<close> is \<^verbatim>\<open>undefined\<close> and the comparison is false.
\<close>

fun slackMessage :: "config \<Rightarrow> jsval \<Rightarrow> jsval" where
  "slackMessage cfg (JStr report) =
     (if int (length report) > max_message_length cfg
      then JStr (substring report 0 (max_message_length cfg - 100) @ truncation_notice)
      else JStr report)"
| "slackMessage cfg report = report"

text \<open>
  The template of lines 64 to 69 after \<^verbatim>\<open>${slackMessage}\<close>; \<open>elapsed\<close> is
  \<^verbatim>\<open>Date.now() - startTime\<close>.
\<close>

definition footer :: "env \<Rightarrow> jsval \<Rightarrow> jsval \<Rightarrow> int \<Rightarrow> jsstring" where
  "footer e timestamp source elapsed =
     ascii ''\<newline>\<newline>---\<newline>'' @
     [0xD83D, 0xDCCA] @ ascii '' **Report Generated**: '' @
     (if truthy timestamp then toLocaleString e timestamp else ascii ''Unknown time'') @
     ascii ''\<newline>'' @
     [0xD83D, 0xDD27] @ ascii '' **Source**: '' @
     ToString (if truthy source then source else JStr (ascii ''Competitive Intel Tool'')) @
     ascii ''\<newline>'' @
     [0x26A1] @ ascii '' **Processing Time**: '' @ Number_toString elapsed @ ascii ''ms''"

definition formattedMessage :: "env \<Rightarrow> jsval \<Rightarrow> jsval \<Rightarrow> jsval \<Rightarrow> int \<Rightarrow> jsstring" where
  "formattedMessage e msg timestamp source elapsed =
     ToString msg @ footer e timestamp source elapsed"

definition auth_headers :: "config \<Rightarrow> (jsstring \<times> jsstring) list" where
  "auth_headers cfg =
     [(ascii ''Authorization'', ascii ''Bearer '' @ oauth_access_token cfg),
      (ascii ''Content-Type'', ascii ''application/json'')]"

definition report_request :: "config \<Rightarrow> jsstring \<Rightarrow> http_request" where
  "report_request cfg formatted =
     \<lparr>http_method = ascii ''POST'',
      url = ascii ''https://slack.com/api/chat.postMessage'',
      headers = auth_headers cfg,
      data = \<lparr>channel = slack_channel cfg, text = formatted,
              username = ascii ''Competitive Intel Bot'', icon_emoji = ascii '':dart:'',
              unfurl_links = Some False, unfurl_media = Some False\<rparr>\<rparr>"

definition error_text :: "jsstring \<Rightarrow> jsstring \<Rightarrow> jsstring" where
  "error_text msg time =
     [0xD83D, 0xDEA8] @ ascii '' **Competitive Intel Webhook Error**\<newline>\<newline>**Error**: '' @ msg @
     ascii ''\<newline>**Time**: '' @ time"

definition error_request :: "config \<Rightarrow> jsstring \<Rightarrow> http_request" where
  "error_request cfg notice =
     \<lparr>http_method = ascii ''POST'',
      url = ascii ''https://slack.com/api/chat.postMessage'',
      headers = auth_headers cfg,
      data = \<lparr>channel = slack_channel cfg, text = notice,
              username = ascii ''Competitive Intel Bot'', icon_emoji = ascii '':warning:'',
              unfurl_links = None, unfurl_media = None\<rparr>\<rparr>"

text \<open>
  The body of the outer \<^verbatim>\<open>try\<close> (lines 41 to 105). \<open>Inl\<close> is an exception leaving the
  block, with the effects made before it.
\<close>

definition try_block ::
  "env \<Rightarrow> config \<Rightarrow> body \<Rightarrow> int \<Rightarrow> state \<Rightarrow> (exn + handler_result) \<times> state" where
  "try_block e cfg requestBody startTime s =
     (case destructure e requestBody of
        Inl err \<Rightarrow> (Inl err, s)
      | Inr (report, timestamp, source) \<Rightarrow>
          if \<not> truthy report
          then (Inr (Respond 400 (ErrorBody (ascii ''No report data provided''))), s)
          else
            (let (t1, s1) = now e s;
                 formatted =
                   formattedMessage e (slackMessage cfg report) timestamp source (t1 - startTime);
                 (slackResponse, s2) = send_http (send_report e) (report_request cfg formatted) s1
             in case slackResponse of
                  Rejects err \<Rightarrow> (Inl err, s2)
                | Resolves Nullish \<Rightarrow> (Inl (Error (type_error_message e ReadOkOfNullish)), s2)
                | Resolves (Response ok_v error_v ts_v) \<Rightarrow>
                    if \<not> truthy ok_v
                    then (Inl (Error (ascii ''Slack error: '' @
                                 (case JSON_stringify error_v of
                                    None \<Rightarrow> ascii ''undefined''
                                  | Some j \<Rightarrow> j))), s2)
                    else
                      (let (t2, s3) = now e s2;
                           (t3, s4) = now e s3
                       in (Inr (Return \<lparr>success = True,
                                        result_timestamp = toISOString e t2,
                                        result_slack_channel = slack_channel cfg,
                                        message_length = length formatted,
                                        processing_time_ms = t3 - startTime,
                                        slack_message_ts = ts_v\<rparr>), s4))))"

text \<open>The expression \<^verbatim>\<open>error.message\<close> of lines 121 and 134.\<close>

fun error_message :: "env \<Rightarrow> exn \<Rightarrow> exn + jsval" where
  "error_message e (ThrownNullish n) = Inl (Error (type_error_message e (ReadMessageOf n)))"
| "error_message e (Thrown m) = Inr m"

text \<open>
  The inner \<^verbatim>\<open>try\<close> of the \<^verbatim>\<open>catch\<close> clause (lines 111 to 125): one call posting the
  error notice. The argument of the call is built first: its template reads
  \<^verbatim>\<open>error.message\<close> and then the clock, so when that read throws, the clock is not
  read and no call is made.
\<close>

definition notify_try :: "env \<Rightarrow> config \<Rightarrow> exn \<Rightarrow> state \<Rightarrow> (exn + unit) \<times> state" where
  "notify_try e cfg err s =
     (case error_message e err of
        Inl typeError \<Rightarrow> (Inl typeError, s)
      | Inr m \<Rightarrow>
          (let (t, s1) = now e s;
               (r, s2) = send_http (send_error_notice e)
                           (error_request cfg (error_text (ToString m) (toLocaleTimeString e t))) s1
           in case r of
                Rejects slackError \<Rightarrow> (Inl slackError, s2)
              | Resolves _ \<Rightarrow> (Inr (), s2)))"

text \<open>
  The \<^verbatim>\<open>catch\<close> clause (lines 107 to 138). Its inner \<^verbatim>\<open>catch\<close> only logs
  \<^verbatim>\<open>slackError\<close>, so both branches go on to \<^verbatim>\<open>$.respond\<close>. The argument of
  \<^verbatim>\<open>$.respond\<close> reads \<^verbatim>\<open>error.message\<close> again (line 134), now outside every \<^verbatim>\<open>try\<close>:
  when that read throws, the \<^verbatim>\<open>TypeError\<close> leaves the handler (\<open>Inl\<close>) and nothing is
  sent to the caller.
\<close>

definition catch_block ::
  "env \<Rightarrow> config \<Rightarrow> exn \<Rightarrow> state \<Rightarrow> (exn + handler_result) \<times> state" where
  "catch_block e cfg err s =
     (let (r, s1) = notify_try e cfg err s;
          s2 = (case r of Inl slackError \<Rightarrow> s1 | Inr _ \<Rightarrow> s1)
      in case error_message e err of
           Inl typeError \<Rightarrow> (Inl typeError, s2)
         | Inr m \<Rightarrow>
             (let (t, s3) = now e s2
              in (Inr (Respond 500 (FailureBody False m (toISOString e t))), s3)))"

text \<open>
  The handler. \<open>Inl\<close> in its result is an exception that leaves \<^verbatim>\<open>run\<close>: the returned
  promise rejects and \<^verbatim>\<open>$.respond\<close> was not called.
\<close>

definition run :: "env \<Rightarrow> config \<Rightarrow> body \<Rightarrow> (exn + handler_result) \<times> state" where
  "run e cfg requestBody =
     (let (startTime, s0) = now e \<lparr>calls = [], ticks = 0\<rparr>
      in case try_block e cfg requestBody startTime s0 of
           (Inl err, s) \<Rightarrow> catch_block e cfg err s
         | (Inr r, s) \<Rightarrow> (Inr r, s))"

section \<open>Observations and example inputs\<close>

text \<open>
  On a truthy \<^verbatim>\<open>report\<close> the first outbound call is the report post. Its argument
  is fixed by the request, the props and the first two clock readings.
\<close>

definition posted_request :: "env \<Rightarrow> config \<Rightarrow> jsval \<Rightarrow> jsval \<Rightarrow> jsval \<Rightarrow> http_request" where
  "posted_request e cfg report timestamp source =
     report_request cfg
       (formattedMessage e (slackMessage cfg report) timestamp source (clock e 1 - clock e 0))"

text \<open>The message text of the first outbound call of a run, if it made any.\<close>

definition first_outbound_text :: "(exn + handler_result) \<times> state \<Rightarrow> jsstring option" where
  "first_outbound_text r =
     (case calls (snd r) of [] \<Rightarrow> None | req # _ \<Rightarrow> Some (text (data req)))"

text \<open>Whether a run ended on the success path, with \<^verbatim>\<open>success\<close> true.\<close>

definition succeeded :: "(exn + handler_result) \<times> state \<Rightarrow> bool" where
  "succeeded r = (case fst r of Inr (Return res) \<Rightarrow> success res | _ \<Rightarrow> False)"

text \<open>
  The props at their defaults, and an environment in which the provider accepts
  every post. The formatters return what an \<^verbatim>\<open>en-US\<close> runtime in UTC prints.
\<close>

definition default_config :: config where
  "default_config =
     \<lparr>slack_channel = ascii ''#general'', max_message_length = 3000,
      oauth_access_token = ascii ''xoxb-example''\<rparr>"

definition example_env :: env where
  "example_env =
     \<lparr>clock = (\<lambda>k. 1700000000500 + 7 * int k),
      toLocaleString =
        (\<lambda>v. if v = JNum 0 then ascii ''1/1/1970, 12:00:00 AM''
             else ascii ''11/14/2023, 10:13:20 PM''),
      toLocaleTimeString = (\<lambda>t. ascii ''10:13:20 PM''),
      toISOString = (\<lambda>t. ascii ''2023-11-14T22:13:20.500Z''),
      type_error_message =
        (\<lambda>k. case k of
           DestructureUndefined \<Rightarrow>
             ascii ''Cannot destructure property 'report' of 'requestBody' as it is undefined.''
         | DestructureNull \<Rightarrow>
             ascii ''Cannot destructure property 'report' of 'requestBody' as it is null.''
         | ReadOkOfNullish \<Rightarrow>
             ascii ''Cannot read properties of undefined (reading 'ok')''
         | ReadMessageOf Undefined \<Rightarrow>
             ascii ''Cannot read properties of undefined (reading 'message')''
         | ReadMessageOf Null \<Rightarrow>
             ascii ''Cannot read properties of null (reading 'message')''),
      send_report =
        (\<lambda>req. Resolves (Response (JBool True) JUndefined (JStr (ascii ''1700000000.000100'')))),
      send_error_notice =
        (\<lambda>req. Resolves (Response (JBool True) JUndefined (JStr (ascii ''1700000000.000200''))))\<rparr>"

text \<open>
  Ways for a call to the provider to fail: an answer with \<^verbatim>\<open>ok\<close> false, a rejection
  with an \<^verbatim>\<open>Error\<close>, and rejections with \<^verbatim>\<open>undefined\<close> and with \<^verbatim>\<open>null\<close>.
\<close>

definition invalid_auth :: outcome where
  "invalid_auth = Resolves (Response (JBool False) (JStr (ascii ''invalid_auth'')) JUndefined)"


definition rejects_undefined :: outcome where
  "rejects_undefined = Rejects (ThrownNullish Undefined)"


section \<open>The paths through the handler\<close>

lemma length_ascii [simp]: "length (ascii s) = length s"
  by (simp add: ascii_def)

text \<open>
  On a caught value whose \<^verbatim>\<open>message\<close> can be read, the \<^verbatim>\<open>catch\<close> clause makes one call,
  reads the clock twice and answers 500. On \<^verbatim>\<open>undefined\<close> or \<^verbatim>\<open>null\<close> it makes no call,
  reads no clock and throws.
\<close>

lemma catch_block_eq:
  "catch_block e cfg (Thrown m) s =
     (Inr (Respond 500 (FailureBody False m (toISOString e (clock e (Suc (ticks s)))))),
      \<lparr>calls = calls s @ [error_request cfg
                 (error_text (ToString m) (toLocaleTimeString e (clock e (ticks s))))],
       ticks = Suc (Suc (ticks s))\<rparr>)"
  by (simp add: catch_block_def notify_try_def now_def send_http_def
      split: outcome.split sum.split)

lemma catch_block_nullish:
  "catch_block e cfg (ThrownNullish n) s = (Inl (Error (type_error_message e (ReadMessageOf n))), s)"
  by (simp add: catch_block_def notify_try_def)

lemma try_block_falsy:
  "destructure e requestBody = Inr (report, timestamp, source) \<Longrightarrow> \<not> truthy report \<Longrightarrow>
   try_block e cfg requestBody t0 s =
     (Inr (Respond 400 (ErrorBody (ascii ''No report data provided''))), s)"
  by (simp add: try_block_def)

lemma try_block_destructure_fails:
  "destructure e requestBody = Inl err \<Longrightarrow> try_block e cfg requestBody t0 s = (Inl err, s)"
  by (simp add: try_block_def)

text \<open>A run on a truthy \<^verbatim>\<open>report\<close>, by the outcome of the report post.\<close>

lemma run_truthy:
  assumes "destructure e requestBody = Inr (report, timestamp, source)" and "truthy report"
  shows "run e cfg requestBody =
     (case send_report e (posted_request e cfg report timestamp source) of
        Rejects err \<Rightarrow>
          catch_block e cfg err \<lparr>calls = [posted_request e cfg report timestamp source], ticks = 2\<rparr>
      | Resolves Nullish \<Rightarrow>
          catch_block e cfg (Error (type_error_message e ReadOkOfNullish))
            \<lparr>calls = [posted_request e cfg report timestamp source], ticks = 2\<rparr>
      | Resolves (Response ok_v error_v ts_v) \<Rightarrow>
          if \<not> truthy ok_v
          then catch_block e cfg
                 (Error (ascii ''Slack error: '' @
                    (case JSON_stringify error_v of None \<Rightarrow> ascii ''undefined'' | Some j \<Rightarrow> j)))
                 \<lparr>calls = [posted_request e cfg report timestamp source], ticks = 2\<rparr>
          else (Inr (Return \<lparr>success = True,
                      result_timestamp = toISOString e (clock e 2),
                      result_slack_channel = slack_channel cfg,
                      message_length = length (text (data (posted_request e cfg report timestamp source))),
                      processing_time_ms = clock e 3 - clock e 0,
                      slack_message_ts = ts_v\<rparr>),
                \<lparr>calls = [posted_request e cfg report timestamp source], ticks = 4\<rparr>))"
  using assms
  by (simp add: run_def try_block_def now_def send_http_def posted_request_def report_request_def
      Let_def eval_nat_numeral
      split: outcome.split response.split)

section \<open>Validation\<close>

text \<open>
  C1. When the body is an object whose \<^verbatim>\<open>report\<close> is missing or empty, the handler
  answers with status 400 and the body \<^verbatim>\<open>{error: "No report data provided"}\<close>, and it
  makes no outbound call. A missing property reads as \<^verbatim>\<open>undefined\<close>, and
  \<^verbatim>\<open>undefined\<close>, \<^verbatim>\<open>null\<close> and the empty string are all falsy, which is what line 47
  tests.
\<close>

theorem missing_report_responds_400:
  assumes "requestBody = BodyObject obj" and "\<not> truthy (property obj ''report'')"
  shows "run e cfg requestBody =
           (Inr (Respond 400 (ErrorBody (ascii ''No report data provided''))),
            \<lparr>calls = [], ticks = 1\<rparr>)"
  using assms by (simp add: run_def now_def try_block_falsy)

text \<open>The scenario \<^verbatim>\<open>{}\<close>, and \<^verbatim>\<open>{report: ""}\<close>.\<close>

theorem missing_report_responds_400_witness:
  "\<not> truthy (property Map.empty ''report'') \<and>
   \<not> truthy (property [''report'' \<mapsto> JStr []] ''report'') \<and>
   run example_env default_config (BodyObject Map.empty) =
     (Inr (Respond 400 (ErrorBody (ascii ''No report data provided''))), \<lparr>calls = [], ticks = 1\<rparr>) \<and>
   run example_env default_config (BodyObject [''report'' \<mapsto> JStr []]) =
     (Inr (Respond 400 (ErrorBody (ascii ''No report data provided''))), \<lparr>calls = [], ticks = 1\<rparr>)"
  using missing_report_responds_400 [of "BodyObject Map.empty" Map.empty example_env default_config]
    missing_report_responds_400 [of "BodyObject [''report'' \<mapsto> JStr []]" "[''report'' \<mapsto> JStr []]"
      example_env default_config]
  by (simp add: property_def)

text \<open>
  C9. When the body is \<^verbatim>\<open>undefined\<close> or \<^verbatim>\<open>null\<close>, the destructuring of line 45 throws
  before the test of line 47 runs: the handler posts the error notice (its only
  outbound call) and answers with status 500, not with the 400 of the validation.
\<close>

theorem nullish_body_responds_500:
  assumes "requestBody = BodyUndefined \<or> requestBody = BodyNull"
  shows "\<exists>msg. destructure e requestBody = Inl (Error msg) \<and>
           run e cfg requestBody =
             (Inr (Respond 500 (FailureBody False (JStr msg) (toISOString e (clock e 2)))),
              \<lparr>calls = [error_request cfg (error_text msg (toLocaleTimeString e (clock e 1)))],
               ticks = 3\<rparr>)"
  using assms
  by (auto simp: run_def now_def try_block_destructure_fails catch_block_eq eval_nat_numeral)

theorem nullish_body_responds_500_witness:
  "(BodyNull = BodyUndefined \<or> BodyNull = BodyNull) \<and>
   (BodyUndefined = BodyUndefined \<or> BodyUndefined = BodyNull) \<and>
   fst (run example_env default_config BodyNull) =
     Inr (Respond 500
       (FailureBody False
          (JStr (ascii ''Cannot destructure property 'report' of 'requestBody' as it is null.''))
          (ascii ''2023-11-14T22:13:20.500Z''))) \<and>
   fst (run example_env default_config BodyUndefined) =
     Inr (Respond 500
       (FailureBody False
          (JStr (ascii ''Cannot destructure property 'report' of 'requestBody' as it is undefined.''))
          (ascii ''2023-11-14T22:13:20.500Z''))) \<and>
   length (calls (snd (run example_env default_config BodyNull))) = 1 \<and>
   length (calls (snd (run example_env default_config BodyUndefined))) = 1"
  using nullish_body_responds_500 [of BodyNull example_env default_config]
    nullish_body_responds_500 [of BodyUndefined example_env default_config]
  by (auto simp: example_env_def)

lemma ascii_eq_Nil [simp]: "ascii s = [] \<longleftrightarrow> s = []"
  by (simp add: ascii_def)

lemma posted_channel:
  "channel (data (posted_request e cfg report timestamp source)) = slack_channel cfg"
  by (simp add: posted_request_def report_request_def)

lemma posted_text:
  "text (data (posted_request e cfg report timestamp source)) =
     formattedMessage e (slackMessage cfg report) timestamp source (clock e 1 - clock e 0)"
  by (simp add: posted_request_def report_request_def)

lemma error_request_channel: "channel (data (error_request cfg notice)) = slack_channel cfg"
  by (simp add: error_request_def)

section \<open>The success path\<close>

text \<open>
  C8. On a truthy \<^verbatim>\<open>report\<close>, when the provider's answer has a truthy \<^verbatim>\<open>ok\<close>, the
  handler returns the object with \<^verbatim>\<open>success\<close> true, the ISO time of the third clock
  reading, the configured channel, the length of the formatted message, the time
  elapsed between the first and the fourth clock reading, and the provider's
  \<^verbatim>\<open>ts\<close>; the report post is its only outbound call.
\<close>

theorem success_path_result:
  assumes "requestBody = BodyObject obj"
    and "truthy (property obj ''report'')"
    and "send_report e (posted_request e cfg (property obj ''report'')
           (property obj ''timestamp'') (property obj ''source'')) =
         Resolves (Response ok_v error_v ts_v)"
    and "truthy ok_v"
  shows "run e cfg requestBody =
     (Inr (Return \<lparr>success = True,
              result_timestamp = toISOString e (clock e 2),
              result_slack_channel = slack_channel cfg,
              message_length =
                length (formattedMessage e (slackMessage cfg (property obj ''report''))
                  (property obj ''timestamp'') (property obj ''source'') (clock e 1 - clock e 0)),
              processing_time_ms = clock e 3 - clock e 0,
              slack_message_ts = ts_v\<rparr>),
      \<lparr>calls = [posted_request e cfg (property obj ''report'')
                  (property obj ''timestamp'') (property obj ''source'')],
       ticks = 4\<rparr>)"
proof -
  have "destructure e requestBody =
          Inr (property obj ''report'', property obj ''timestamp'', property obj ''source'')"
    using assms(1) by simp
  from run_truthy [OF this assms(2)] assms(3,4) show ?thesis
    by (simp add: posted_text)
qed

theorem success_path_result_witness:
  "truthy (property [''report'' \<mapsto> JStr (ascii ''Q3 pricing changed'')] ''report'') \<and>
   truthy (JBool True) \<and>
   run example_env default_config (BodyObject [''report'' \<mapsto> JStr (ascii ''Q3 pricing changed'')]) =
     (Inr (Return \<lparr>success = True,
              result_timestamp = ascii ''2023-11-14T22:13:20.500Z'',
              result_slack_channel = ascii ''#general'',
              message_length = 126,
              processing_time_ms = 21,
              slack_message_ts = JStr (ascii ''1700000000.000100'')\<rparr>),
      \<lparr>calls = [posted_request example_env default_config (JStr (ascii ''Q3 pricing changed''))
                  JUndefined JUndefined],
       ticks = 4\<rparr>)"
  using success_path_result [of "BodyObject [''report'' \<mapsto> JStr (ascii ''Q3 pricing changed'')]"
      "[''report'' \<mapsto> JStr (ascii ''Q3 pricing changed'')]" example_env default_config
      "JBool True" JUndefined "JStr (ascii ''1700000000.000100'')"]
  by (simp add: property_def example_env_def default_config_def formattedMessage_def footer_def
      Number_toString_def digits.simps)

lemma stringify_invalid_auth:
  "JSON_stringify (JStr (ascii ''invalid_auth'')) = Some ([34] @ ascii ''invalid_auth'' @ [34])"
  by (simp add: ascii_def is_high_surrogate_def is_low_surrogate_def)

section \<open>The failure path\<close>

text \<open>
  The paths on which the \<^verbatim>\<open>catch\<close> clause does what it is written for. On a truthy
  \<^verbatim>\<open>report\<close>, when the report post rejects with a value \<open>Thrown m\<close> (an \<^verbatim>\<open>Error\<close>, or
  anything else but \<^verbatim>\<open>undefined\<close> and \<^verbatim>\<open>null\<close>), or resolves with a falsy \<^verbatim>\<open>ok\<close>, the
  handler answers with status 500 and the body \<^verbatim>\<open>{success: false, error, timestamp}\<close>,
  after exactly one further call, the error notice, to the same channel.
\<close>

lemma run_delivery_failure:
  assumes "requestBody = BodyObject obj"
    and "truthy (property obj ''report'')"
    and "posted = posted_request e cfg (property obj ''report'')
           (property obj ''timestamp'') (property obj ''source'')"
    and "send_report e posted = Rejects (Thrown m) \<or>
         (\<exists>ok_v error_v ts_v.
            send_report e posted = Resolves (Response ok_v error_v ts_v) \<and> \<not> truthy ok_v \<and>
            m = JStr (ascii ''Slack error: '' @
                    (case JSON_stringify error_v of None \<Rightarrow> ascii ''undefined'' | Some j \<Rightarrow> j)))"
  shows "run e cfg requestBody =
     (Inr (Respond 500 (FailureBody False m (toISOString e (clock e 3)))),
      \<lparr>calls = [posted,
                error_request cfg (error_text (ToString m) (toLocaleTimeString e (clock e 2)))],
       ticks = 4\<rparr>)"
proof -
  have d: "destructure e requestBody =
          Inr (property obj ''report'', property obj ''timestamp'', property obj ''source'')"
    using assms(1) by simp
  from assms(4) show ?thesis
  proof
    assume "send_report e posted = Rejects (Thrown m)"
    with run_truthy [OF d assms(2), of cfg] assms(3) show ?thesis
      by (simp add: catch_block_eq eval_nat_numeral)
  next
    assume "\<exists>ok_v error_v ts_v.
            send_report e posted = Resolves (Response ok_v error_v ts_v) \<and> \<not> truthy ok_v \<and>
            m = JStr (ascii ''Slack error: '' @
                    (case JSON_stringify error_v of None \<Rightarrow> ascii ''undefined'' | Some j \<Rightarrow> j))"
    then obtain ok_v error_v ts_v where
      "send_report e posted = Resolves (Response ok_v error_v ts_v)" "\<not> truthy ok_v"
      "m = JStr (ascii ''Slack error: '' @
                    (case JSON_stringify error_v of None \<Rightarrow> ascii ''undefined'' | Some j \<Rightarrow> j))"
      by blast
    with run_truthy [OF d assms(2), of cfg] assms(3) show ?thesis
      by (simp add: catch_block_eq eval_nat_numeral)
  qed
qed

text \<open>
  The same run when the report post rejects with \<^verbatim>\<open>undefined\<close> or \<^verbatim>\<open>null\<close>: the report
  post stays the only call, and the handler throws the \<^verbatim>\<open>TypeError\<close> of line 134.
\<close>

lemma run_nullish_rejection:
  assumes "requestBody = BodyObject obj"
    and "truthy (property obj ''report'')"
    and "posted = posted_request e cfg (property obj ''report'')
           (property obj ''timestamp'') (property obj ''source'')"
    and "send_report e posted = Rejects (ThrownNullish n)"
  shows "run e cfg requestBody =
     (Inl (Error (type_error_message e (ReadMessageOf n))), \<lparr>calls = [posted], ticks = 2\<rparr>)"
proof -
  have d: "destructure e requestBody =
          Inr (property obj ''report'', property obj ''timestamp'', property obj ''source'')"
    using assms(1) by simp
  from run_truthy [OF d assms(2), of cfg] assms(3,4) show ?thesis
    by (simp add: catch_block_nullish)
qed

text \<open>
  C3. The claim: whenever the report post throws, or its answer has a falsy \<^verbatim>\<open>ok\<close>, the
  handler answers with status 500 and attempts exactly one error notice. The
  \<^verbatim>\<open>catch\<close> clause is written for that and reaches it on every path of
  \<open>run_delivery_failure\<close>, but it reads \<^verbatim>\<open>error.message\<close> of whatever was caught. For
  the request \<^verbatim>\<open>{report: "Q3 pricing changed"}\<close> and a report post that rejects with
  \<^verbatim>\<open>undefined\<close>, line 121 throws inside the inner \<^verbatim>\<open>try\<close> before the error notice is
  sent, and line 134 throws outside it: the report post is the only outbound
  call, no status 500 is sent, and the handler ends with a \<^verbatim>\<open>TypeError\<close>.
\<close>

theorem rejection_with_undefined_gets_no_reply:
  "run (example_env\<lparr>send_report := \<lambda>req. rejects_undefined\<rparr>) default_config
       (BodyObject [''report'' \<mapsto> JStr (ascii ''Q3 pricing changed'')]) =
     (Inl (Error (ascii ''Cannot read properties of undefined (reading 'message')'')),
      \<lparr>calls = [posted_request example_env default_config (JStr (ascii ''Q3 pricing changed''))
                  JUndefined JUndefined],
       ticks = 2\<rparr>)"
proof -
  let ?obj = "[''report'' \<mapsto> JStr (ascii ''Q3 pricing changed'')]"
  let ?e = "example_env\<lparr>send_report := \<lambda>req. rejects_undefined\<rparr>"
  have p: "property ?obj ''report'' = JStr (ascii ''Q3 pricing changed'')"
    "property ?obj ''timestamp'' = JUndefined" "property ?obj ''source'' = JUndefined"
    by (simp_all add: property_def)
  have t: "truthy (property ?obj ''report'')"
    by (simp add: p)
  have q: "posted_request ?e default_config (JStr (ascii ''Q3 pricing changed'')) JUndefined JUndefined =
           posted_request example_env default_config (JStr (ascii ''Q3 pricing changed''))
             JUndefined JUndefined"
    by (simp add: posted_request_def formattedMessage_def footer_def)
  have r: "send_report ?e (posted_request ?e default_config (property ?obj ''report'')
             (property ?obj ''timestamp'') (property ?obj ''source'')) =
           Rejects (ThrownNullish Undefined)"
    by (simp add: rejects_undefined_def)
  have m: "type_error_message ?e (ReadMessageOf Undefined) =
           ascii ''Cannot read properties of undefined (reading 'message')''"
    by (simp add: example_env_def)
  from run_nullish_rejection [OF refl t refl r]
  show ?thesis
    by (simp only: p q m)
qed

text \<open>The reply of the \<^verbatim>\<open>catch\<close> clause does not depend on the answer to the error notice.\<close>

lemma destructure_notice_upd:
  "destructure (e\<lparr>send_error_notice := f\<rparr>) requestBody = destructure e requestBody"
  by (cases requestBody) simp_all

lemma now_notice_upd: "now (e\<lparr>send_error_notice := f\<rparr>) s = now e s"
  by (simp add: now_def)

lemma formattedMessage_notice_upd:
  "formattedMessage (e\<lparr>send_error_notice := f\<rparr>) msg timestamp source elapsed =
   formattedMessage e msg timestamp source elapsed"
  by (simp add: formattedMessage_def footer_def)

lemma fields_notice_upd:
  "send_report (e\<lparr>send_error_notice := f\<rparr>) = send_report e"
  "type_error_message (e\<lparr>send_error_notice := f\<rparr>) = type_error_message e"
  "toISOString (e\<lparr>send_error_notice := f\<rparr>) = toISOString e"
  "clock (e\<lparr>send_error_notice := f\<rparr>) = clock e"
  by simp_all

lemma try_block_notice_upd:
  "try_block (e\<lparr>send_error_notice := f\<rparr>) cfg requestBody t0 s = try_block e cfg requestBody t0 s"
  unfolding try_block_def destructure_notice_upd now_notice_upd formattedMessage_notice_upd
    fields_notice_upd
  by (rule refl)

text \<open>
  Whatever the call posting the error notice does, a request whose \<^verbatim>\<open>try\<close> block threw
  \<open>Thrown m\<close> is answered with the same status-500 body: a rejection of that call
  is caught by the inner \<^verbatim>\<open>catch\<close> and does not reach the caller.
\<close>

lemma run_notice_outcome_irrelevant:
  assumes "try_block e cfg requestBody (clock e 0) \<lparr>calls = [], ticks = 1\<rparr> = (Inl (Thrown m), s)"
  shows "fst (run (e\<lparr>send_error_notice := notice_outcome\<rparr>) cfg requestBody) =
           Inr (Respond 500 (FailureBody False m (toISOString e (clock e (Suc (ticks s))))))"
  using assms by (simp add: run_def now_def try_block_notice_upd catch_block_eq)


section \<open>Formatting\<close>

text \<open>The text of the report post, for any truthy \<^verbatim>\<open>report\<close> and for a string.\<close>

lemma first_text_of_calls:
  "first_outbound_text (r, \<lparr>calls = req # rest, ticks = k\<rparr>) = Some (text (data req))"
  by (simp add: first_outbound_text_def)

lemma first_text_catch_block:
  "first_outbound_text (catch_block e cfg err \<lparr>calls = [req], ticks = k\<rparr>) = Some (text (data req))"
  by (cases err) (simp_all add: first_outbound_text_def catch_block_eq catch_block_nullish)

lemma first_text_truthy:
  assumes "destructure e requestBody = Inr (report, timestamp, source)" and "truthy report"
  shows "first_outbound_text (run e cfg requestBody) =
           Some (formattedMessage e (slackMessage cfg report) timestamp source (clock e 1 - clock e 0))"
  by (simp add: run_truthy [OF assms] first_text_of_calls first_text_catch_block posted_text
      split: outcome.split response.split)

lemma substring_from_0: "substring s 0 n = take (nat n) s"
  by (simp add: substring_def Let_def min_def max_def)

lemma slackMessage_long:
  "int (length report) > max_message_length cfg \<Longrightarrow>
   slackMessage cfg (JStr report) =
     JStr (take (nat (max_message_length cfg - 100)) report @ truncation_notice)"
  by (simp add: substring_from_0)

lemma first_text_string:
  assumes "requestBody = BodyObject obj" and "property obj ''report'' = JStr report"
    and "report \<noteq> []"
  shows "first_outbound_text (run e cfg requestBody) =
           Some (ToString (slackMessage cfg (JStr report)) @
                 footer e (property obj ''timestamp'') (property obj ''source'') (clock e 1 - clock e 0))"
proof -
  have "destructure e requestBody =
          Inr (JStr report, property obj ''timestamp'', property obj ''source'')"
    using assms(1,2) by simp
  moreover have "truthy (JStr report)"
    using assms(3) by simp
  ultimately show ?thesis
    by (simp only: first_text_truthy formattedMessage_def)
qed

lemma example_elapsed: "clock example_env 1 - clock example_env 0 = 7"
  by (simp add: example_env_def)

lemma example_send_report:
  "send_report example_env req =
     Resolves (Response (JBool True) JUndefined (JStr (ascii ''1700000000.000100'')))"
  by (simp add: example_env_def)

lemma not_suffix_by_last: "xs \<noteq> [] \<Longrightarrow> last ys \<noteq> last xs \<Longrightarrow> \<not> suffix xs ys"
  by (auto simp: suffix_def)

lemma footer_not_Nil: "footer e timestamp source elapsed \<noteq> []"
  by (simp add: footer_def)

lemma last_footer: "last (footer e timestamp source elapsed) = 115"
  by (simp add: footer_def ascii_def)

lemma last_truncation_notice: "last truncation_notice = 41"
  by (simp add: truncation_notice_def ascii_def)

lemma length_truncation_notice: "length truncation_notice = 42"
  by (simp add: truncation_notice_def)

lemma truncation_notice_not_Nil: "truncation_notice \<noteq> []"
  by (simp add: truncation_notice_def)

lemma example_footer_length: "length (footer example_env JUndefined JUndefined 7) = 108"
  by (simp add: footer_def example_env_def Number_toString_def digits.simps)

text \<open>
  C5. A non-empty report text of length at most \<^verbatim>\<open>max_message_length\<close> is sent as it
  is, followed by the footer; nothing is cut and no notice is added.
\<close>

theorem short_report_sent_unmodified:
  assumes "requestBody = BodyObject obj" and "property obj ''report'' = JStr report"
    and "report \<noteq> []" and "int (length report) \<le> max_message_length cfg"
  shows "first_outbound_text (run e cfg requestBody) =
           Some (report @
                 footer e (property obj ''timestamp'') (property obj ''source'') (clock e 1 - clock e 0))"
  using first_text_string [OF assms(1-3), of e cfg] assms(4) by simp

theorem short_report_sent_unmodified_witness:
  "property [''report'' \<mapsto> JStr (ascii ''Q3 pricing changed'')] ''report'' =
     JStr (ascii ''Q3 pricing changed'') \<and>
   ascii ''Q3 pricing changed'' \<noteq> [] \<and>
   int (length (ascii ''Q3 pricing changed'')) \<le> max_message_length default_config \<and>
   first_outbound_text (run example_env default_config
       (BodyObject [''report'' \<mapsto> JStr (ascii ''Q3 pricing changed'')])) =
     Some (ascii ''Q3 pricing changed'' @ footer example_env JUndefined JUndefined 7)"
proof -
  let ?obj = "[''report'' \<mapsto> JStr (ascii ''Q3 pricing changed'')]"
  have p: "property ?obj ''report'' = JStr (ascii ''Q3 pricing changed'')"
    "property ?obj ''timestamp'' = JUndefined" "property ?obj ''source'' = JUndefined"
    by (simp_all add: property_def)
  have n: "ascii ''Q3 pricing changed'' \<noteq> []"
    by simp
  have l: "int (length (ascii ''Q3 pricing changed'')) \<le> max_message_length default_config"
    by (simp add: default_config_def)
  from short_report_sent_unmodified [OF refl p(1) n l, of example_env] p n l
  show ?thesis
    by (simp only: example_elapsed simp_thms)
qed

text \<open>
  C6. A non-empty report text longer than \<^verbatim>\<open>max_message_length\<close> is sent as its first
  \<^verbatim>\<open>max_message_length - 100\<close> code units, then the truncation notice, then the
  footer, and the kept prefix has exactly that length (none when the difference
  is not positive). When the provider then answers with a truthy \<^verbatim>\<open>ok\<close> the run
  ends with \<^verbatim>\<open>success\<close> true. The witness is the scenario of 5000 characters with
  the limit at 3000: 2900 code units are kept.
\<close>

theorem long_report_truncated:
  assumes "requestBody = BodyObject obj" and "property obj ''report'' = JStr report"
    and "report \<noteq> []" and "int (length report) > max_message_length cfg"
  shows "first_outbound_text (run e cfg requestBody) =
           Some (take (nat (max_message_length cfg - 100)) report @ truncation_notice @
                 footer e (property obj ''timestamp'') (property obj ''source'') (clock e 1 - clock e 0)) \<and>
         length (take (nat (max_message_length cfg - 100)) report) =
           nat (max_message_length cfg - 100) \<and>
         (send_report e (posted_request e cfg (JStr report) (property obj ''timestamp'')
              (property obj ''source'')) = Resolves (Response ok_v error_v ts_v) \<longrightarrow>
          truthy ok_v \<longrightarrow> succeeded (run e cfg requestBody))"
proof -
  have d: "destructure e requestBody =
          Inr (JStr report, property obj ''timestamp'', property obj ''source'')"
    using assms(1,2) by simp
  have t: "truthy (JStr report)"
    using assms(3) by simp
  have "first_outbound_text (run e cfg requestBody) =
           Some (take (nat (max_message_length cfg - 100)) report @ truncation_notice @
                 footer e (property obj ''timestamp'') (property obj ''source'') (clock e 1 - clock e 0))"
    using first_text_string [OF assms(1-3), of e cfg] assms(4)
    by (simp add: substring_from_0)
  moreover have "length (take (nat (max_message_length cfg - 100)) report) =
           nat (max_message_length cfg - 100)"
    using assms(4) by simp
  moreover have "succeeded (run e cfg requestBody)"
    if "send_report e (posted_request e cfg (JStr report) (property obj ''timestamp'')
              (property obj ''source'')) = Resolves (Response ok_v error_v ts_v)" "truthy ok_v"
    using that by (simp add: run_truthy [OF d t] succeeded_def)
  ultimately show ?thesis by blast
qed

theorem long_report_truncated_witness:
  "replicate 5000 (88 :: code_unit) \<noteq> [] \<and>
   int (length (replicate 5000 (88 :: code_unit))) > max_message_length default_config \<and>
   truthy (JBool True) \<and>
   first_outbound_text (run example_env default_config
       (BodyObject [''report'' \<mapsto> JStr (replicate 5000 88),
                    ''timestamp'' \<mapsto> JNum 1700000000000,
                    ''source'' \<mapsto> JStr (ascii ''scanner'')])) =
     Some (replicate 2900 88 @ truncation_notice @
           footer example_env (JNum 1700000000000) (JStr (ascii ''scanner'')) 7) \<and>
   length (replicate 2900 (88 :: code_unit)) = 2900 \<and>
   succeeded (run example_env default_config
       (BodyObject [''report'' \<mapsto> JStr (replicate 5000 88),
                    ''timestamp'' \<mapsto> JNum 1700000000000,
                    ''source'' \<mapsto> JStr (ascii ''scanner'')]))"
proof -
  let ?obj = "[''report'' \<mapsto> JStr (replicate 5000 88),
               ''timestamp'' \<mapsto> JNum 1700000000000,
               ''source'' \<mapsto> JStr (ascii ''scanner'')]"
  have p: "property ?obj ''report'' = JStr (replicate 5000 88)"
    "property ?obj ''timestamp'' = JNum 1700000000000"
    "property ?obj ''source'' = JStr (ascii ''scanner'')"
    by (simp_all add: property_def)
  have n: "replicate 5000 (88 :: code_unit) \<noteq> []"
    by simp
  have l: "int (length (replicate 5000 (88 :: code_unit))) > max_message_length default_config"
    by (simp add: default_config_def)
  have k: "take (nat (max_message_length default_config - 100)) (replicate 5000 (88 :: code_unit)) =
           replicate 2900 88"
    by (simp add: default_config_def)
  have t: "truthy (JBool True)"
    by simp
  from long_report_truncated [OF refl p(1) n l, of example_env "JBool True" JUndefined
      "JStr (ascii ''1700000000.000100'')"] n l t
  show ?thesis
    by (simp only: p k example_elapsed example_send_report simp_thms length_replicate)
qed

text \<open>
  C10. When \<^verbatim>\<open>max_message_length\<close> is at most 100, a non-empty report text longer than
  it keeps no code unit of the report: the text sent is the truncation notice
  followed by the footer.
\<close>

theorem tiny_limit_keeps_no_report_text:
  assumes "requestBody = BodyObject obj" and "property obj ''report'' = JStr report"
    and "report \<noteq> []" and "max_message_length cfg \<le> 100"
    and "int (length report) > max_message_length cfg"
  shows "first_outbound_text (run e cfg requestBody) =
           Some (truncation_notice @
                 footer e (property obj ''timestamp'') (property obj ''source'') (clock e 1 - clock e 0))"
  using first_text_string [OF assms(1-3), of e cfg] assms(4,5)
  by (simp add: substring_from_0)

theorem tiny_limit_keeps_no_report_text_witness:
  "ascii ''Q3 pricing changed'' \<noteq> [] \<and>
   max_message_length (default_config\<lparr>max_message_length := 10\<rparr>) \<le> 100 \<and>
   int (length (ascii ''Q3 pricing changed'')) >
     max_message_length (default_config\<lparr>max_message_length := 10\<rparr>) \<and>
   first_outbound_text (run example_env (default_config\<lparr>max_message_length := 10\<rparr>)
       (BodyObject [''report'' \<mapsto> JStr (ascii ''Q3 pricing changed'')])) =
     Some (truncation_notice @ footer example_env JUndefined JUndefined 7)"
proof -
  let ?obj = "[''report'' \<mapsto> JStr (ascii ''Q3 pricing changed'')]"
  let ?cfg = "default_config\<lparr>max_message_length := 10\<rparr>"
  have p: "property ?obj ''report'' = JStr (ascii ''Q3 pricing changed'')"
    "property ?obj ''timestamp'' = JUndefined" "property ?obj ''source'' = JUndefined"
    by (simp_all add: property_def)
  have n: "ascii ''Q3 pricing changed'' \<noteq> []"
    by simp
  have m: "max_message_length ?cfg \<le> 100"
    by simp
  have l: "int (length (ascii ''Q3 pricing changed'')) > max_message_length ?cfg"
    by simp
  from tiny_limit_keeps_no_report_text [OF refl p(1) n m l, of example_env] p n m l
  show ?thesis
    by (simp only: example_elapsed simp_thms)
qed

text \<open>
  C2, as stated: the text sent for a report longer than \<^verbatim>\<open>max_message_length\<close> has
  length at most \<^verbatim>\<open>max_message_length\<close> and ends with the truncation notice. With the
  props at their defaults and a report of 5000 characters, the text sent has
  2900 + 42 + 108 = 3050 code units, more than 3000, and it ends with the footer
  (\<^verbatim>\<open>ms\<close>), not with the notice.
\<close>

theorem outbound_text_bound_counterexample:
  "int (length (replicate 5000 (88 :: code_unit))) > max_message_length default_config \<and>
   first_outbound_text (run example_env default_config
       (BodyObject [''report'' \<mapsto> JStr (replicate 5000 88)])) =
     Some (replicate 2900 88 @ truncation_notice @ footer example_env JUndefined JUndefined 7) \<and>
   \<not> int (length (replicate 2900 (88 :: code_unit) @ truncation_notice @
                  footer example_env JUndefined JUndefined 7)) \<le> max_message_length default_config \<and>
   \<not> suffix truncation_notice
       (replicate 2900 88 @ truncation_notice @ footer example_env JUndefined JUndefined 7)"
proof -
  let ?obj = "[''report'' \<mapsto> JStr (replicate 5000 (88 :: code_unit))]"
  have p: "property ?obj ''report'' = JStr (replicate 5000 88)"
    "property ?obj ''timestamp'' = JUndefined" "property ?obj ''source'' = JUndefined"
    by (simp_all add: property_def)
  have n: "replicate 5000 (88 :: code_unit) \<noteq> []"
    by simp
  have l: "int (length (replicate 5000 (88 :: code_unit))) > max_message_length default_config"
    by (simp add: default_config_def)
  have k: "take (nat (max_message_length default_config - 100)) (replicate 5000 (88 :: code_unit)) =
           replicate 2900 88"
    by (simp add: default_config_def)
  have sm: "slackMessage default_config (JStr (replicate 5000 88)) =
              JStr (replicate 2900 88 @ truncation_notice)"
    using slackMessage_long [OF l] by (simp only: k)
  have "first_outbound_text (run example_env default_config (BodyObject ?obj)) =
     Some (replicate 2900 88 @ truncation_notice @ footer example_env JUndefined JUndefined 7)"
    using first_text_string [OF refl p(1) n, of example_env default_config]
    by (simp only: sm p example_elapsed ToString.simps append_assoc)
  moreover have "\<not> int (length (replicate 2900 (88 :: code_unit) @ truncation_notice @
                  footer example_env JUndefined JUndefined 7)) \<le> max_message_length default_config"
    by (simp add: length_truncation_notice example_footer_length default_config_def)
  moreover have "\<not> suffix truncation_notice
       (replicate 2900 88 @ truncation_notice @ footer example_env JUndefined JUndefined 7)"
    by (rule not_suffix_by_last)
      (simp_all add: truncation_notice_not_Nil footer_not_Nil last_footer last_truncation_notice)
  ultimately show ?thesis
    using l by blast
qed

text \<open>
  C2, amended. For a non-empty report text longer than \<^verbatim>\<open>max_message_length\<close>, the
  text sent is a truncated body followed by the footer. The truncated body ends
  with the truncation notice and, when \<^verbatim>\<open>max_message_length\<close> is at least 42 (the length
  of the notice), has length at most \<^verbatim>\<open>max_message_length\<close>.
\<close>

theorem truncated_body_within_limit:
  assumes "requestBody = BodyObject obj" and "property obj ''report'' = JStr report"
    and "report \<noteq> []" and "int (length report) > max_message_length cfg"
  shows "first_outbound_text (run e cfg requestBody) =
           Some ((take (nat (max_message_length cfg - 100)) report @ truncation_notice) @
                 footer e (property obj ''timestamp'') (property obj ''source'') (clock e 1 - clock e 0)) \<and>
         suffix truncation_notice
           (take (nat (max_message_length cfg - 100)) report @ truncation_notice) \<and>
         (42 \<le> max_message_length cfg \<longrightarrow>
            int (length (take (nat (max_message_length cfg - 100)) report @ truncation_notice))
              \<le> max_message_length cfg)"
proof -
  have "first_outbound_text (run e cfg requestBody) =
           Some ((take (nat (max_message_length cfg - 100)) report @ truncation_notice) @
                 footer e (property obj ''timestamp'') (property obj ''source'') (clock e 1 - clock e 0))"
    using first_text_string [OF assms(1-3), of e cfg] assms(4)
    by (simp add: substring_from_0)
  moreover have "suffix truncation_notice
           (take (nat (max_message_length cfg - 100)) report @ truncation_notice)"
    by (rule suffix_appendI) simp
  moreover have "int (length (take (nat (max_message_length cfg - 100)) report @ truncation_notice))
              \<le> max_message_length cfg" if "42 \<le> max_message_length cfg"
    using that assms(4) by (simp add: length_truncation_notice)
  ultimately show ?thesis by blast
qed

theorem truncated_body_within_limit_witness:
  "replicate 5000 (88 :: code_unit) \<noteq> [] \<and>
   int (length (replicate 5000 (88 :: code_unit))) > max_message_length default_config \<and>
   42 \<le> max_message_length default_config \<and>
   first_outbound_text (run example_env default_config
       (BodyObject [''report'' \<mapsto> JStr (replicate 5000 88)])) =
     Some ((replicate 2900 88 @ truncation_notice) @ footer example_env JUndefined JUndefined 7) \<and>
   suffix truncation_notice (replicate 2900 88 @ truncation_notice) \<and>
   int (length (replicate 2900 (88 :: code_unit) @ truncation_notice)) \<le>
     max_message_length default_config"
proof -
  let ?obj = "[''report'' \<mapsto> JStr (replicate 5000 (88 :: code_unit))]"
  have p: "property ?obj ''report'' = JStr (replicate 5000 88)"
    "property ?obj ''timestamp'' = JUndefined" "property ?obj ''source'' = JUndefined"
    by (simp_all add: property_def)
  have n: "replicate 5000 (88 :: code_unit) \<noteq> []"
    by simp
  have l: "int (length (replicate 5000 (88 :: code_unit))) > max_message_length default_config"
    by (simp add: default_config_def)
  have m: "42 \<le> max_message_length default_config"
    by (simp add: default_config_def)
  have k: "take (nat (max_message_length default_config - 100)) (replicate 5000 (88 :: code_unit)) =
           replicate 2900 88"
    by (simp add: default_config_def)
  from truncated_body_within_limit [OF refl p(1) n l, of example_env] n l m
  show ?thesis
    by (simp only: p k example_elapsed simp_thms)
qed

text \<open>
  C7, as stated: the footer shows the formatted time whenever \<^verbatim>\<open>timestamp\<close> is present
  and the source whenever \<^verbatim>\<open>source\<close> is present. The request
  \<^verbatim>\<open>{report: "Q3 pricing changed", timestamp: 0, source: ""}\<close> has both, yet the
  footer reads \<^verbatim>\<open>Unknown time\<close> and \<^verbatim>\<open>Competitive Intel Tool\<close>: lines 67 and 68 test
  truthiness, and \<^verbatim>\<open>0\<close> and \<^verbatim>\<open>""\<close> are falsy.
\<close>

theorem footer_presence_counterexample:
  "[''report'' \<mapsto> JStr (ascii ''Q3 pricing changed''), ''timestamp'' \<mapsto> JNum 0,
    ''source'' \<mapsto> JStr []] ''timestamp'' = Some (JNum 0) \<and>
   [''report'' \<mapsto> JStr (ascii ''Q3 pricing changed''), ''timestamp'' \<mapsto> JNum 0,
    ''source'' \<mapsto> JStr []] ''source'' = Some (JStr []) \<and>
   toLocaleString example_env (JNum 0) = ascii ''1/1/1970, 12:00:00 AM'' \<and>
   first_outbound_text (run example_env default_config
       (BodyObject [''report'' \<mapsto> JStr (ascii ''Q3 pricing changed''), ''timestamp'' \<mapsto> JNum 0,
                    ''source'' \<mapsto> JStr []])) =
     Some (ascii ''Q3 pricing changed'' @ ascii ''\<newline>\<newline>---\<newline>'' @
           [0xD83D, 0xDCCA] @ ascii '' **Report Generated**: Unknown time\<newline>'' @
           [0xD83D, 0xDD27] @ ascii '' **Source**: Competitive Intel Tool\<newline>'' @
           [0x26A1] @ ascii '' **Processing Time**: 7ms'') \<and>
   first_outbound_text (run example_env default_config
       (BodyObject [''report'' \<mapsto> JStr (ascii ''Q3 pricing changed''), ''timestamp'' \<mapsto> JNum 0,
                    ''source'' \<mapsto> JStr []])) \<noteq>
     Some (ascii ''Q3 pricing changed'' @ ascii ''\<newline>\<newline>---\<newline>'' @
           [0xD83D, 0xDCCA] @ ascii '' **Report Generated**: 1/1/1970, 12:00:00 AM\<newline>'' @
           [0xD83D, 0xDD27] @ ascii '' **Source**: \<newline>'' @
           [0x26A1] @ ascii '' **Processing Time**: 7ms'')"
proof -
  let ?obj = "[''report'' \<mapsto> JStr (ascii ''Q3 pricing changed''), ''timestamp'' \<mapsto> JNum 0,
               ''source'' \<mapsto> JStr []]"
  have p: "property ?obj ''report'' = JStr (ascii ''Q3 pricing changed'')"
    "property ?obj ''timestamp'' = JNum 0" "property ?obj ''source'' = JStr []"
    by (simp_all add: property_def)
  have n: "ascii ''Q3 pricing changed'' \<noteq> []"
    by simp
  have sm: "slackMessage default_config (JStr (ascii ''Q3 pricing changed'')) =
              JStr (ascii ''Q3 pricing changed'')"
    by (simp add: default_config_def)
  have f: "footer example_env (JNum 0) (JStr []) 7 =
           ascii ''\<newline>\<newline>---\<newline>'' @
           [0xD83D, 0xDCCA] @ ascii '' **Report Generated**: Unknown time\<newline>'' @
           [0xD83D, 0xDD27] @ ascii '' **Source**: Competitive Intel Tool\<newline>'' @
           [0x26A1] @ ascii '' **Processing Time**: 7ms''"
    by (simp add: footer_def ascii_def Number_toString_def digits.simps)
  have m: "?obj ''timestamp'' = Some (JNum 0)" "?obj ''source'' = Some (JStr [])"
    by simp_all
  have tl: "toLocaleString example_env (JNum 0) = ascii ''1/1/1970, 12:00:00 AM''"
    by (simp add: example_env_def)
  have r: "first_outbound_text (run example_env default_config (BodyObject ?obj)) =
     Some (ascii ''Q3 pricing changed'' @ footer example_env (JNum 0) (JStr []) 7)"
    using first_text_string [OF refl p(1) n, of example_env default_config]
    by (simp only: sm p example_elapsed ToString.simps)
  note r' = r [unfolded f]
  have "first_outbound_text (run example_env default_config (BodyObject ?obj)) \<noteq>
     Some (ascii ''Q3 pricing changed'' @ ascii ''\<newline>\<newline>---\<newline>'' @
           [0xD83D, 0xDCCA] @ ascii '' **Report Generated**: 1/1/1970, 12:00:00 AM\<newline>'' @
           [0xD83D, 0xDD27] @ ascii '' **Source**: \<newline>'' @
           [0x26A1] @ ascii '' **Processing Time**: 7ms'')"
    unfolding r' by (simp add: ascii_def)
  then show ?thesis
    by (intro conjI m tl r')
qed

text \<open>
  C7, amended. On a truthy \<^verbatim>\<open>report\<close> the footer shows the time formatted from
  \<^verbatim>\<open>timestamp\<close> when \<^verbatim>\<open>timestamp\<close> is truthy and \<^verbatim>\<open>Unknown time\<close> when it is falsy
  (absent, \<^verbatim>\<open>null\<close>, \<^verbatim>\<open>0\<close>, \<^verbatim>\<open>""\<close> or \<^verbatim>\<open>false\<close>); it shows \<^verbatim>\<open>source\<close> when \<^verbatim>\<open>source\<close>
  is truthy and \<^verbatim>\<open>Competitive Intel Tool\<close> when it is falsy.
\<close>

theorem footer_shows_time_and_source:
  assumes "requestBody = BodyObject obj" and "truthy (property obj ''report'')"
  shows "first_outbound_text (run e cfg requestBody) =
     Some (ToString (slackMessage cfg (property obj ''report'')) @
           ascii ''\<newline>\<newline>---\<newline>'' @
           [0xD83D, 0xDCCA] @ ascii '' **Report Generated**: '' @
           (if truthy (property obj ''timestamp'')
            then toLocaleString e (property obj ''timestamp'') else ascii ''Unknown time'') @
           ascii ''\<newline>'' @
           [0xD83D, 0xDD27] @ ascii '' **Source**: '' @
           (if truthy (property obj ''source'')
            then ToString (property obj ''source'') else ascii ''Competitive Intel Tool'') @
           ascii ''\<newline>'' @
           [0x26A1] @ ascii '' **Processing Time**: '' @
           Number_toString (clock e 1 - clock e 0) @ ascii ''ms'')"
proof -
  have "destructure e requestBody =
          Inr (property obj ''report'', property obj ''timestamp'', property obj ''source'')"
    using assms(1) by simp
  from first_text_truthy [OF this assms(2), of cfg] show ?thesis
    by (simp add: formattedMessage_def footer_def)
qed

theorem footer_shows_time_and_source_witness:
  "truthy (property [''report'' \<mapsto> JStr (ascii ''Q3 pricing changed''),
                     ''timestamp'' \<mapsto> JNum 1700000000000,
                     ''source'' \<mapsto> JStr (ascii ''scanner'')] ''report'') \<and>
   first_outbound_text (run example_env default_config
       (BodyObject [''report'' \<mapsto> JStr (ascii ''Q3 pricing changed''),
                    ''timestamp'' \<mapsto> JNum 1700000000000,
                    ''source'' \<mapsto> JStr (ascii ''scanner'')])) =
     Some (ascii ''Q3 pricing changed'' @ ascii ''\<newline>\<newline>---\<newline>'' @
           [0xD83D, 0xDCCA] @ ascii '' **Report Generated**: 11/14/2023, 10:13:20 PM\<newline>'' @
           [0xD83D, 0xDD27] @ ascii '' **Source**: scanner\<newline>'' @
           [0x26A1] @ ascii '' **Processing Time**: 7ms'') \<and>
   first_outbound_text (run example_env default_config
       (BodyObject [''report'' \<mapsto> JStr (ascii ''Q3 pricing changed'')])) =
     Some (ascii ''Q3 pricing changed'' @ ascii ''\<newline>\<newline>---\<newline>'' @
           [0xD83D, 0xDCCA] @ ascii '' **Report Generated**: Unknown time\<newline>'' @
           [0xD83D, 0xDD27] @ ascii '' **Source**: Competitive Intel Tool\<newline>'' @
           [0x26A1] @ ascii '' **Processing Time**: 7ms'')"
proof -
  let ?obj = "[''report'' \<mapsto> JStr (ascii ''Q3 pricing changed''),
               ''timestamp'' \<mapsto> JNum 1700000000000,
               ''source'' \<mapsto> JStr (ascii ''scanner'')]"
  let ?obj2 = "[''report'' \<mapsto> JStr (ascii ''Q3 pricing changed'')]"
  have p: "property ?obj ''report'' = JStr (ascii ''Q3 pricing changed'')"
    "property ?obj ''timestamp'' = JNum 1700000000000"
    "property ?obj ''source'' = JStr (ascii ''scanner'')"
    "property ?obj2 ''report'' = JStr (ascii ''Q3 pricing changed'')"
    "property ?obj2 ''timestamp'' = JUndefined"
    "property ?obj2 ''source'' = JUndefined"
    by (simp_all add: property_def)
  have t: "truthy (property ?obj ''report'')" "truthy (property ?obj2 ''report'')"
    by (simp_all add: p)
  have sm: "slackMessage default_config (JStr (ascii ''Q3 pricing changed'')) =
              JStr (ascii ''Q3 pricing changed'')"
    by (simp add: default_config_def)
  have d: "Number_toString 7 = ascii ''7''"
    by (simp add: Number_toString_def digits.simps ascii_def)
  have l: "toLocaleString example_env (JNum 1700000000000) = ascii ''11/14/2023, 10:13:20 PM''"
    by (simp add: example_env_def)
  have a: "first_outbound_text (run example_env default_config (BodyObject ?obj)) =
     Some (ascii ''Q3 pricing changed'' @ ascii ''\<newline>\<newline>---\<newline>'' @
           [0xD83D, 0xDCCA] @ ascii '' **Report Generated**: '' @
           ascii ''11/14/2023, 10:13:20 PM'' @ ascii ''\<newline>'' @
           [0xD83D, 0xDD27] @ ascii '' **Source**: '' @ ascii ''scanner'' @ ascii ''\<newline>'' @
           [0x26A1] @ ascii '' **Processing Time**: '' @ ascii ''7'' @ ascii ''ms'')"
    using footer_shows_time_and_source [OF refl t(1), of example_env default_config]
    by (simp only: p sm d l example_elapsed ToString.simps truthy.simps) simp
  have b: "first_outbound_text (run example_env default_config (BodyObject ?obj2)) =
     Some (ascii ''Q3 pricing changed'' @ ascii ''\<newline>\<newline>---\<newline>'' @
           [0xD83D, 0xDCCA] @ ascii '' **Report Generated**: '' @
           ascii ''Unknown time'' @ ascii ''\<newline>'' @
           [0xD83D, 0xDD27] @ ascii '' **Source**: '' @ ascii ''Competitive Intel Tool'' @
           ascii ''\<newline>'' @
           [0x26A1] @ ascii '' **Processing Time**: '' @ ascii ''7'' @ ascii ''ms'')"
    using footer_shows_time_and_source [OF refl t(2), of example_env default_config]
    by (simp only: p sm d l example_elapsed ToString.simps truthy.simps) simp
  show ?thesis
    using a b t(1) by (simp add: ascii_def)
qed

end
